theory Spec2Isabelle
  imports Main "HOL-Library.AList" "HOL-Library.Word"
begin

section \<open>The chat-completions proxy of \<^verbatim>\<open>src/proxy.py\<close>\<close>

text \<open>
  The proxy has one route, \<^verbatim>\<open>handle_chat_completions\<close>. It parses the inbound body
  with \<^verbatim>\<open>request.json()\<close>, rewrites the \<^verbatim>\<open>model\<close> field and the first message, and
  returns a streaming response whose generator \<^verbatim>\<open>proxy_stream\<close> posts the rewritten
  body upstream and yields every chunk it reads. The embedding below follows the
  handler statement by statement; every Python exception the statements can raise is a
  value of \<open>py_error\<close>.
\<close>

subsection \<open>Parsed JSON\<close>

text \<open>
  What \<^verbatim>\<open>json.loads\<close> returns: \<^verbatim>\<open>None\<close>, a bool, an unbounded int, a float (kept
  as the 64 bits of the double: the handler never computes with one), a str, a list or
  a dict. A dict keeps its keys in insertion order, so it is an association list; the
  parser leaves no key twice.
\<close>

datatype json =
    JNull
  | JBool bool
  | JInt int
  | JFloat "64 word"
  | JStr string
  | JArr "json list"
  | JObj "(string \<times> json) list"

datatype py_error = KeyError | IndexError | TypeError

text \<open>\<^verbatim>\<open>sub in s\<close> for two strs: \<open>sub\<close> occurs in \<open>s\<close> as a contiguous piece.\<close>

fun py_substring :: "string \<Rightarrow> string \<Rightarrow> bool" where
  "py_substring sub [] = (sub = [])"
| "py_substring sub (c # cs) = (take (length sub) (c # cs) = sub \<or> py_substring sub cs)"

text \<open>
  \<^verbatim>\<open>k in d\<close> for a str \<open>k\<close>: key membership in a dict, element membership in a
  list, substring test in a str; the other values are not iterable.
\<close>

fun py_contains :: "string \<Rightarrow> json \<Rightarrow> py_error + bool" where
  "py_contains k (JObj kvs) = Inr (map_of kvs k \<noteq> None)"
| "py_contains k (JArr xs) = Inr (List.member xs (JStr k))"
| "py_contains k (JStr s) = Inr (py_substring k s)"
| "py_contains k _ = Inl TypeError"

text \<open>
  \<^verbatim>\<open>d[k]\<close> for a str \<open>k\<close>: a dict raises KeyError on a missing key; a list and a
  str want integer indices, and the other values are not subscriptable.
\<close>

fun py_getitem :: "json \<Rightarrow> string \<Rightarrow> py_error + json" where
  "py_getitem (JObj kvs) k = (case map_of kvs k of None \<Rightarrow> Inl KeyError | Some v \<Rightarrow> Inr v)"
| "py_getitem _ k = Inl TypeError"

text \<open>
  \<^verbatim>\<open>d[k] = v\<close> for a str \<open>k\<close>: a dict replaces the value of a key it has where the
  key stands and adds a new key at the end; nothing else supports it.
\<close>

fun py_setitem :: "json \<Rightarrow> string \<Rightarrow> json \<Rightarrow> py_error + json" where
  "py_setitem (JObj kvs) k v = Inr (JObj (AList.update k v kvs))"
| "py_setitem _ k v = Inl TypeError"

text \<open>
  \<^verbatim>\<open>d[0]\<close>: the first element of a list, the first character of a str (as a str of
  length one), IndexError when either is empty; a dict of parsed JSON has only str
  keys, so the key \<open>0\<close> is missing.
\<close>

fun py_first :: "json \<Rightarrow> py_error + json" where
  "py_first (JArr []) = Inl IndexError"
| "py_first (JArr (x # xs)) = Inr x"
| "py_first (JStr []) = Inl IndexError"
| "py_first (JStr (c # cs)) = Inr (JStr [c])"
| "py_first (JObj kvs) = Inl KeyError"
| "py_first _ = Inl TypeError"

text \<open>\<^verbatim>\<open>a + s\<close> for a str \<open>s\<close>: only a str on the left concatenates.\<close>

fun py_add_str :: "json \<Rightarrow> string \<Rightarrow> py_error + json" where
  "py_add_str (JStr a) s = Inr (JStr (a @ s))"
| "py_add_str _ s = Inl TypeError"

text \<open>\<^verbatim>\<open>xs + b\<close> for a list \<open>xs\<close>: only a list on the right concatenates.\<close>

fun py_list_add :: "json list \<Rightarrow> json \<Rightarrow> py_error + json" where
  "py_list_add xs (JArr ys) = Inr (JArr (xs @ ys))"
| "py_list_add xs _ = Inl TypeError"

subsection \<open>Configuration\<close>

text \<open>
  \<^verbatim>\<open>ApiConfig\<close>, filled once from the environment: \<^verbatim>\<open>os.getenv\<close> gives \<^verbatim>\<open>None\<close> for a
  variable that is not set. The module constants \<^verbatim>\<open>MODEL\<close>, \<^verbatim>\<open>API_KEY\<close>,
  \<^verbatim>\<open>OVERWRITE_SYSTEM_PROMPT\<close> and \<^verbatim>\<open>APPEND_SYSTEM_PROMPT\<close> are its fields.

  Line 13 annotates \<^verbatim>\<open>default_model\<close> as \<^verbatim>\<open>str\<close> with the default \<^verbatim>\<open>None\<close>, where the
  other optional fields are \<^verbatim>\<open>Optional[str]\<close>, and line 21 passes the result of
  \<^verbatim>\<open>os.getenv\<close> explicitly. Whether an explicit \<^verbatim>\<open>None\<close> passes that annotation is
  decided by pydantic when the module is imported, before any request: where it is
  refused the process does not start, and the handler only ever sees a str. The record
  admits \<^verbatim>\<open>None\<close> in that field, so a statement about every configuration covers
  each one the import can produce; no theorem below assumes the field is \<^verbatim>\<open>None\<close>.
\<close>

record ApiConfig =
  llm_api_endpoint :: string
  default_model :: "string option"
  api_key :: "string option"
  overwrite_system_prompt :: "string option"
  append_system_prompt :: "string option"

text \<open>\<^verbatim>\<open>MODEL\<close> as the value stored into the body: \<^verbatim>\<open>None\<close> is JSON null.\<close>

fun MODEL :: "ApiConfig \<Rightarrow> json" where
  "MODEL cfg = (case default_model cfg of None \<Rightarrow> JNull | Some m \<Rightarrow> JStr m)"

text \<open>
  The test \<^verbatim>\<open>X and X != ""\<close> on an optional str: it passes for a str that is not
  empty, and then \<open>X\<close> is that str.
\<close>

fun nonempty :: "string option \<Rightarrow> string option" where
  "nonempty None = None"
| "nonempty (Some s) = (if s = [] then None else Some s)"

subsection \<open>The rewrite of the request body (lines 77 to 85)\<close>

text \<open>\<^verbatim>\<open>if 'model' in incoming_data: incoming_data['model'] = MODEL\<close>\<close>

definition rewrite_model :: "ApiConfig \<Rightarrow> json \<Rightarrow> py_error + json" where
  "rewrite_model cfg d =
     (case py_contains ''model'' d of
        Inl e \<Rightarrow> Inl e
      | Inr present \<Rightarrow> if present then py_setitem d ''model'' (MODEL cfg) else Inr d)"

text \<open>\<^verbatim>\<open>incoming_data['messages'][0]\<close>\<close>

definition first_message :: "json \<Rightarrow> py_error + json" where
  "first_message d =
     (case py_getitem d ''messages'' of Inl e \<Rightarrow> Inl e | Inr msgs \<Rightarrow> py_first msgs)"

text \<open>
  The list object with its element 0 replaced. The handler never assigns to
  \<^verbatim>\<open>messages[0]\<close>: it mutates the dict that element refers to, and the list and the
  body see the change through the reference. With values instead of references the
  changed dict is written back along the path it was read from.
\<close>

fun store_first :: "json \<Rightarrow> json \<Rightarrow> json" where
  "store_first (JArr (x # xs)) m = JArr (m # xs)"
| "store_first j m = j"

text \<open>\<^verbatim>\<open>incoming_data['messages'][0]['content'] = v\<close>\<close>

definition set_first_content :: "json \<Rightarrow> json \<Rightarrow> py_error + json" where
  "set_first_content d v =
     (case py_getitem d ''messages'' of
        Inl e \<Rightarrow> Inl e
      | Inr msgs \<Rightarrow>
          (case py_first msgs of
             Inl e \<Rightarrow> Inl e
           | Inr m0 \<Rightarrow>
               (case py_setitem m0 ''content'' v of
                  Inl e \<Rightarrow> Inl e
                | Inr m0' \<Rightarrow> py_setitem d ''messages'' (store_first msgs m0'))))"

text \<open>\<^verbatim>\<open>{"role" : "system", "content" : OVERWRITE_SYSTEM_PROMPT}\<close>\<close>

definition system_message :: "string \<Rightarrow> json" where
  "system_message p = JObj [(''role'', JStr ''system''), (''content'', JStr p)]"

text \<open>The body of the \<^verbatim>\<open>if OVERWRITE_SYSTEM_PROMPT ...\<close> branch, lines 80 to 83.\<close>

definition overwrite_prompt :: "string \<Rightarrow> json \<Rightarrow> py_error + json" where
  "overwrite_prompt p d =
     (case first_message d of
        Inl e \<Rightarrow> Inl e
      | Inr m0 \<Rightarrow>
          (case py_getitem m0 ''role'' of
             Inl e \<Rightarrow> Inl e
           | Inr role \<Rightarrow>
               if role = JStr ''system'' then set_first_content d (JStr p)
               else
                 (case py_getitem d ''messages'' of
                    Inl e \<Rightarrow> Inl e
                  | Inr msgs \<Rightarrow>
                      (case py_list_add [system_message p] msgs of
                         Inl e \<Rightarrow> Inl e
                       | Inr new \<Rightarrow> py_setitem d ''messages'' new))))"

text \<open>
  The separator of line 85 is the Python literal \<^verbatim>\<open>'\\n'\<close>: two characters, a
  backslash (0x5C) and the letter n.
\<close>

definition separator :: string where
  "separator = [CHR 0x5C, CHR ''n'']"

text \<open>The body of the \<^verbatim>\<open>elif APPEND_SYSTEM_PROMPT ...\<close> branch, line 85.\<close>

definition append_prompt :: "string \<Rightarrow> json \<Rightarrow> py_error + json" where
  "append_prompt p d =
     (case first_message d of
        Inl e \<Rightarrow> Inl e
      | Inr m0 \<Rightarrow>
          (case py_getitem m0 ''content'' of
             Inl e \<Rightarrow> Inl e
           | Inr c \<Rightarrow>
               (case py_add_str c separator of
                  Inl e \<Rightarrow> Inl e
                | Inr c1 \<Rightarrow>
                    (case py_add_str c1 p of
                       Inl e \<Rightarrow> Inl e
                     | Inr c2 \<Rightarrow> set_first_content d c2))))"

text \<open>Lines 79 to 85: the \<^verbatim>\<open>if\<close> / \<^verbatim>\<open>elif\<close> on the two prompts.\<close>

definition rewrite_prompts :: "ApiConfig \<Rightarrow> json \<Rightarrow> py_error + json" where
  "rewrite_prompts cfg d =
     (case nonempty (overwrite_system_prompt cfg) of
        Some p \<Rightarrow> overwrite_prompt p d
      | None \<Rightarrow>
          (case nonempty (append_system_prompt cfg) of
             Some p \<Rightarrow> append_prompt p d
           | None \<Rightarrow> Inr d))"

text \<open>Lines 77 to 85 in order: the model, then the prompts.\<close>

definition rewrite :: "ApiConfig \<Rightarrow> json \<Rightarrow> py_error + json" where
  "rewrite cfg d =
     (case rewrite_model cfg d of Inl e \<Rightarrow> Inl e | Inr d1 \<Rightarrow> rewrite_prompts cfg d1)"

subsection \<open>The forwarder (lines 88 to 101)\<close>

text \<open>What \<^verbatim>\<open>client.stream("POST", API_ENDPOINT, json=..., headers=...)\<close> sends.\<close>

record outbound_request =
  http_method :: string
  url :: string
  headers :: "(string \<times> string) list"
  json_body :: json

text \<open>
  \<^verbatim>\<open>headers = {}\<close>, then the Authorization entry when \<^verbatim>\<open>API_KEY and API_KEY != ""\<close>.
\<close>

definition build_headers :: "ApiConfig \<Rightarrow> (string \<times> string) list" where
  "build_headers cfg =
     (case nonempty (api_key cfg) of
        None \<Rightarrow> []
      | Some k \<Rightarrow> AList.update ''Authorization'' (''Bearer '' @ k) [])"

definition upstream_request :: "ApiConfig \<Rightarrow> json \<Rightarrow> outbound_request" where
  "upstream_request cfg d =
     \<lparr>http_method = ''POST'', url = llm_api_endpoint cfg,
      headers = build_headers cfg, json_body = d\<rparr>"

text \<open>
  The generator's effects: the lines \<^verbatim>\<open>print\<close> wrote and the chunks it yielded, in
  order.
\<close>

record stream_state =
  printed :: "string list"
  yielded :: "string list"

text \<open>
  \<^verbatim>\<open>async for chunk in response.aiter_text(): print(chunk); yield chunk\<close>, over the
  chunks the upstream response delivers.
\<close>

fun stream_loop :: "string list \<Rightarrow> stream_state \<Rightarrow> stream_state" where
  "stream_loop [] s = s"
| "stream_loop (chunk # rest) s =
     stream_loop rest
       (s\<lparr>printed := printed s @ [chunk @ [CHR 0x0A]], yielded := yielded s @ [chunk]\<rparr>)"

definition proxy_stream :: "string list \<Rightarrow> stream_state" where
  "proxy_stream chunks = stream_loop chunks \<lparr>printed = [], yielded = []\<rparr>"

text \<open>
  What one call of the handler amounts to: the request sent upstream, the declared media
  type and the chunks streamed to the caller.
\<close>

record proxied =
  sent :: outbound_request
  media_type :: string
  streamed :: "string list"

text \<open>
  The handler, given the parsed body and the chunks upstream will answer with. A fault in
  the rewrite leaves the handler before \<^verbatim>\<open>proxy_stream\<close> exists, so nothing is sent.
\<close>

definition handle_chat_completions ::
    "ApiConfig \<Rightarrow> json \<Rightarrow> string list \<Rightarrow> py_error + proxied" where
  "handle_chat_completions cfg incoming_data chunks =
     (case rewrite cfg incoming_data of
        Inl e \<Rightarrow> Inl e
      | Inr d \<Rightarrow>
          Inr \<lparr>sent = upstream_request cfg d, media_type = ''application/json'',
               streamed = yielded (proxy_stream chunks)\<rparr>)"

text \<open>A top-level field of a body; a body that is not a dict has none.\<close>

fun field :: "string \<Rightarrow> json \<Rightarrow> json option" where
  "field k (JObj kvs) = map_of kvs k"
| "field k _ = None"

text \<open>The keys of a body, in the order the dict holds them.\<close>

fun keys :: "json \<Rightarrow> string list" where
  "keys (JObj kvs) = map fst kvs"
| "keys _ = []"

subsection \<open>Example configuration and requests\<close>

definition example_config :: ApiConfig where
  "example_config =
     \<lparr>llm_api_endpoint = ''http://localhost:8080/v1/chat/completions'',
      default_model = Some ''llama3'', api_key = Some ''secret'',
      overwrite_system_prompt = None, append_system_prompt = None\<rparr>"

definition user_message :: json where
  "user_message = JObj [(''role'', JStr ''user''), (''content'', JStr ''hi'')]"

definition old_system_message :: json where
  "old_system_message = JObj [(''role'', JStr ''system''), (''content'', JStr ''old'')]"

text \<open>\<^verbatim>\<open>{"model": "gpt-4", "stream": true, "messages": [user], "max_tokens": 64}\<close>\<close>

definition user_request :: json where
  "user_request =
     JObj [(''model'', JStr ''gpt-4''), (''stream'', JBool True),
           (''messages'', JArr [user_message]), (''max_tokens'', JInt 64)]"

text \<open>\<^verbatim>\<open>{"messages": [system, user], "model": "gpt-4"}\<close>\<close>

definition system_request :: json where
  "system_request =
     JObj [(''messages'', JArr [old_system_message, user_message]),
           (''model'', JStr ''gpt-4'')]"

text \<open>\<^verbatim>\<open>{"messages": [user], "stream": true}\<close>: a body that names no model.\<close>

definition modelless_request :: json where
  "modelless_request = JObj [(''messages'', JArr [user_message]), (''stream'', JBool True)]"


section \<open>Properties\<close>

subsection \<open>Dicts and the steps of the rewrite\<close>

lemma map_of_update_other: "k' \<noteq> k \<Longrightarrow> map_of (AList.update k v kvs) k' = map_of kvs k'"
  by (simp add: update_conv')

lemma map_of_update_same: "map_of (AList.update k v kvs) k = Some v"
  by (simp add: update_conv')

lemma keys_update_present:
  "map_of kvs k \<noteq> None \<Longrightarrow> map fst (AList.update k v kvs) = map fst kvs"
  by (simp add: update_keys map_of_eq_None_iff)

lemma py_setitem_Inr:
  "py_setitem d k v = Inr d' \<Longrightarrow> \<exists>kvs. d = JObj kvs \<and> d' = JObj (AList.update k v kvs)"
  by (cases d) simp_all

lemma py_getitem_Inr:
  "py_getitem d k = Inr v \<Longrightarrow> \<exists>kvs. d = JObj kvs \<and> map_of kvs k = Some v"
  by (cases d) (simp_all split: option.splits)

lemma rewrite_model_obj:
  "rewrite_model cfg (JObj kvs) =
     Inr (JObj (if map_of kvs ''model'' = None then kvs
                else AList.update ''model'' (MODEL cfg) kvs))"
  by (simp add: rewrite_model_def)

lemma rewrite_model_not_obj:
  "rewrite_model cfg d = Inr d1 \<Longrightarrow> \<forall>kvs. d \<noteq> JObj kvs \<Longrightarrow> d1 = d"
  by (cases d) (simp_all add: rewrite_model_def split: if_splits)

lemma rewrite_model_field:
  assumes "rewrite_model cfg d = Inr d1"
  shows "field k d1 =
           (if k = ''model'' \<and> field ''model'' d \<noteq> None then Some (MODEL cfg) else field k d)"
proof (cases d)
  case (JObj kvs)
  with assms show ?thesis
    by (auto simp: rewrite_model_obj map_of_update_other map_of_update_same
             simp del: MODEL.simps)
next
qed (use assms in \<open>auto simp: rewrite_model_def split: if_splits\<close>)

lemma rewrite_model_keys: "rewrite_model cfg d = Inr d1 \<Longrightarrow> keys d1 = keys d"
  by (cases d) (auto simp: rewrite_model_def keys_update_present split: if_splits)

lemma set_first_content_obj:
  "map_of kvs ''messages'' = Some (JArr (JObj m # rest)) \<Longrightarrow>
   set_first_content (JObj kvs) v =
     Inr (JObj (AList.update ''messages''
                  (JArr (JObj (AList.update ''content'' v m) # rest)) kvs))"
  by (simp add: set_first_content_def)

lemma set_first_content_Inr:
  assumes "set_first_content d v = Inr d'"
  shows "\<exists>kvs m rest. d = JObj kvs \<and> map_of kvs ''messages'' = Some (JArr (JObj m # rest))"
proof -
  from assms obtain msgs where g: "py_getitem d ''messages'' = Inr msgs"
    by (auto simp: set_first_content_def split: sum.splits)
  then obtain kvs where d: "d = JObj kvs" and m: "map_of kvs ''messages'' = Some msgs"
    using py_getitem_Inr by blast
  from assms g obtain m0 where f: "py_first msgs = Inr m0"
    by (auto simp: set_first_content_def split: sum.splits)
  from assms g f obtain m0' where s: "py_setitem m0 ''content'' v = Inr m0'"
    by (auto simp: set_first_content_def split: sum.splits)
  then obtain mm where m0: "m0 = JObj mm"
    using py_setitem_Inr by blast
  from f m0 obtain rest where "msgs = JArr (JObj mm # rest)"
    by (cases msgs rule: py_first.cases) auto
  with d m show ?thesis by blast
qed


lemma set_first_content_frame:
  assumes "set_first_content d v = Inr d'" and "k \<noteq> ''messages''"
  shows "field k d' = field k d"
proof -
  obtain kvs m rest where "d = JObj kvs"
      and "map_of kvs ''messages'' = Some (JArr (JObj m # rest))"
    using set_first_content_Inr [OF assms(1)] by blast
  with assms show ?thesis
    by (auto simp: set_first_content_obj map_of_update_other)
qed

lemma overwrite_prompt_obj:
  assumes "map_of kvs ''messages'' = Some (JArr (JObj m # rest))"
      and "map_of m ''role'' = Some role"
  shows "overwrite_prompt p (JObj kvs) =
           Inr (JObj (AList.update ''messages''
                  (JArr (if role = JStr ''system''
                         then JObj (AList.update ''content'' (JStr p) m) # rest
                         else system_message p # JObj m # rest)) kvs))"
  using assms by (simp add: overwrite_prompt_def first_message_def set_first_content_obj)

lemma first_message_Inr:
  assumes "first_message d = Inr m0"
  shows "\<exists>kvs msgs. d = JObj kvs \<and> map_of kvs ''messages'' = Some msgs \<and> py_first msgs = Inr m0"
  using assms py_getitem_Inr [of d "''messages''"]
  by (auto simp: first_message_def split: sum.splits)

lemma py_first_obj:
  "py_first msgs = Inr (JObj m) \<Longrightarrow> \<exists>rest. msgs = JArr (JObj m # rest)"
  by (cases msgs rule: py_first.cases) auto

lemma overwrite_prompt_Inr:
  assumes "overwrite_prompt p d = Inr d'"
  shows "\<exists>kvs m rest role. d = JObj kvs
            \<and> map_of kvs ''messages'' = Some (JArr (JObj m # rest))
            \<and> map_of m ''role'' = Some role"
proof -
  from assms obtain m0 where f: "first_message d = Inr m0"
    by (auto simp: overwrite_prompt_def split: sum.splits)
  with assms obtain role where r: "py_getitem m0 ''role'' = Inr role"
    by (auto simp: overwrite_prompt_def split: sum.splits)
  then obtain m where m0: "m0 = JObj m" and role: "map_of m ''role'' = Some role"
    using py_getitem_Inr by blast
  from f obtain kvs msgs where d: "d = JObj kvs" and ms: "map_of kvs ''messages'' = Some msgs"
      and pf: "py_first msgs = Inr m0"
    using first_message_Inr by blast
  from pf m0 obtain rest where "msgs = JArr (JObj m # rest)"
    using py_first_obj by blast
  with d ms role show ?thesis by blast
qed

lemma append_prompt_obj:
  assumes "map_of kvs ''messages'' = Some (JArr (JObj m # rest))"
      and "map_of m ''content'' = Some (JStr c)"
  shows "append_prompt p (JObj kvs) =
           Inr (JObj (AList.update ''messages''
                  (JArr (JObj (AList.update ''content'' (JStr (c @ separator @ p)) m) # rest))
                  kvs))"
  using assms by (simp add: append_prompt_def first_message_def set_first_content_obj)

lemma py_add_str_Inr: "py_add_str a s = Inr b \<Longrightarrow> \<exists>t. a = JStr t \<and> b = JStr (t @ s)"
  by (cases a) simp_all

lemma append_prompt_Inr:
  assumes "append_prompt p d = Inr d'"
  shows "\<exists>kvs m rest c. d = JObj kvs
            \<and> map_of kvs ''messages'' = Some (JArr (JObj m # rest))
            \<and> map_of m ''content'' = Some (JStr c)"
proof -
  from assms obtain m0 where f: "first_message d = Inr m0"
    by (auto simp: append_prompt_def split: sum.splits)
  with assms obtain cv where g: "py_getitem m0 ''content'' = Inr cv"
    by (auto simp: append_prompt_def split: sum.splits)
  with assms f obtain c1 where "py_add_str cv separator = Inr c1"
    by (auto simp: append_prompt_def split: sum.splits)
  then obtain c where cv: "cv = JStr c"
    using py_add_str_Inr by blast
  from g obtain m where m0: "m0 = JObj m" and cont: "map_of m ''content'' = Some cv"
    using py_getitem_Inr by blast
  from f obtain kvs msgs where d: "d = JObj kvs" and ms: "map_of kvs ''messages'' = Some msgs"
      and pf: "py_first msgs = Inr m0"
    using first_message_Inr by blast
  from pf m0 obtain rest where "msgs = JArr (JObj m # rest)"
    using py_first_obj by blast
  with d ms cont cv show ?thesis by blast
qed

text \<open>What a successful prompt rewrite did to the body.\<close>

lemma rewrite_prompts_Inr:
  assumes "rewrite_prompts cfg d = Inr d'"
  shows "d' = d \<or>
         (\<exists>kvs m rest new. d = JObj kvs
            \<and> map_of kvs ''messages'' = Some (JArr (JObj m # rest))
            \<and> d' = JObj (AList.update ''messages'' (JArr new) kvs)
            \<and> (tl new = rest \<or> tl new = JObj m # rest))"
proof (cases "nonempty (overwrite_system_prompt cfg)")
  case (Some p)
  with assms have ov: "overwrite_prompt p d = Inr d'"
    by (simp add: rewrite_prompts_def)
  then obtain kvs m rest role where d: "d = JObj kvs"
      and ms: "map_of kvs ''messages'' = Some (JArr (JObj m # rest))"
      and role: "map_of m ''role'' = Some role"
    using overwrite_prompt_Inr by blast
  from ov have "\<exists>new. d' = JObj (AList.update ''messages'' (JArr new) kvs)
            \<and> (tl new = rest \<or> tl new = JObj m # rest)"
    unfolding d overwrite_prompt_obj [OF ms role] by (cases "role = JStr ''system''") auto
  with d ms show ?thesis by blast
next
  case None
  note no_overwrite = None
  show ?thesis
  proof (cases "nonempty (append_system_prompt cfg)")
    case (Some p)
    with assms no_overwrite have ap: "append_prompt p d = Inr d'"
      by (simp add: rewrite_prompts_def)
    then obtain kvs m rest c where d: "d = JObj kvs"
        and ms: "map_of kvs ''messages'' = Some (JArr (JObj m # rest))"
        and c: "map_of m ''content'' = Some (JStr c)"
      using append_prompt_Inr by blast
    from ap have "\<exists>new. d' = JObj (AList.update ''messages'' (JArr new) kvs)
            \<and> (tl new = rest \<or> tl new = JObj m # rest)"
      unfolding d append_prompt_obj [OF ms c] by auto
    with d ms show ?thesis by blast
  next
    case None
    with assms no_overwrite show ?thesis
      by (simp add: rewrite_prompts_def)
  qed
qed

lemma rewrite_prompts_frame:
  assumes "rewrite_prompts cfg d = Inr d'" and "k \<noteq> ''messages''"
  shows "field k d' = field k d"
  using rewrite_prompts_Inr [OF assms(1)] assms(2)
  by (auto simp: map_of_update_other)

lemma rewrite_prompts_keys:
  assumes "rewrite_prompts cfg d = Inr d'"
  shows "keys d' = keys d"
  using rewrite_prompts_Inr [OF assms]
  by (auto simp: keys_update_present)

lemma rewrite_Inr:
  "rewrite cfg d = Inr d' \<Longrightarrow>
     \<exists>d1. rewrite_model cfg d = Inr d1 \<and> rewrite_prompts cfg d1 = Inr d'"
  by (auto simp: rewrite_def split: sum.splits)

subsection \<open>Streaming\<close>

lemma stream_loop_yielded: "yielded (stream_loop chunks s) = yielded s @ chunks"
  by (induction chunks arbitrary: s) simp_all

lemma stream_loop_printed:
  "printed (stream_loop chunks s) = printed s @ map (\<lambda>c. c @ [CHR 0x0A]) chunks"
  by (induction chunks arbitrary: s) simp_all

lemma handle_Inr:
  "handle_chat_completions cfg d chunks = Inr r \<Longrightarrow>
     rewrite cfg d = Inr (json_body (sent r))
     \<and> headers (sent r) = build_headers cfg
     \<and> streamed r = chunks"
  by (auto simp: handle_chat_completions_def upstream_request_def proxy_stream_def
      stream_loop_yielded split: sum.splits)

text \<open>
  C3. The chunks the generator yields are the upstream chunks themselves, in the same
  order and with the same boundaries; so their concatenation is the upstream text, with
  nothing added or removed.
\<close>

theorem proxy_stream_yields_upstream_chunks:
  "yielded (proxy_stream chunks) = chunks
   \<and> concat (yielded (proxy_stream chunks)) = concat chunks"
  by (simp add: proxy_stream_def stream_loop_yielded)

subsection \<open>The claims about the model field and the separator\<close>

lemmas rewrite_defs =
  rewrite_def rewrite_model_def rewrite_prompts_def overwrite_prompt_def append_prompt_def
  first_message_def set_first_content_def system_message_def separator_def

lemmas handler_defs =
  handle_chat_completions_def upstream_request_def build_headers_def proxy_stream_def

lemmas example_defs =
  example_config_def user_message_def old_system_message_def user_request_def
  system_request_def modelless_request_def

lemma field_Some_obj: "field k d = Some v \<Longrightarrow> \<exists>kvs. d = JObj kvs \<and> map_of kvs k = Some v"
  by (cases d) simp_all

text \<open>
  C1, as the code has it. With a default model configured, the body sent upstream has
  the default as its \<^verbatim>\<open>model\<close> exactly when the inbound body has a \<^verbatim>\<open>model\<close>
  field, whatever its value; line 77 guards the assignment, so a body without the field
  is forwarded without one.
\<close>

theorem model_overwritten_when_present:
  assumes "default_model cfg = Some m"
      and "handle_chat_completions cfg body chunks = Inr r"
  shows "field ''model'' (json_body (sent r)) =
           (if field ''model'' body = None then None else Some (JStr m))"
proof -
  from assms(2) have "rewrite cfg body = Inr (json_body (sent r))"
    by (simp add: handle_Inr)
  then obtain d1 where m: "rewrite_model cfg body = Inr d1"
      and p: "rewrite_prompts cfg d1 = Inr (json_body (sent r))"
    using rewrite_Inr by blast
  have "field ''model'' (json_body (sent r)) = field ''model'' d1"
    using rewrite_prompts_frame [OF p] by simp
  also have "\<dots> = (if field ''model'' body = None then None else Some (MODEL cfg))"
    using rewrite_model_field [OF m, of "''model''"] by simp
  finally show ?thesis
    using assms(1) by simp
qed

text \<open>
  The theorem of C1 at a request that names the model \<^verbatim>\<open>gpt-4\<close>.
\<close>

theorem model_overwritten_when_present_witness:
  "default_model example_config = Some ''llama3''
   \<and> handle_chat_completions example_config user_request [''a''] =
       Inr \<lparr>sent = upstream_request example_config
                     (JObj [(''model'', JStr ''llama3''), (''stream'', JBool True),
                            (''messages'', JArr [user_message]), (''max_tokens'', JInt 64)]),
            media_type = ''application/json'', streamed = [''a'']\<rparr>
   \<and> field ''model''
        (JObj [(''model'', JStr ''llama3''), (''stream'', JBool True),
               (''messages'', JArr [user_message]), (''max_tokens'', JInt 64)]) =
       Some (JStr ''llama3'')"
proof -
  have c: "default_model example_config = Some ''llama3''"
    by (simp add: example_config_def)
  have h: "handle_chat_completions example_config user_request [''a''] =
       Inr \<lparr>sent = upstream_request example_config
                     (JObj [(''model'', JStr ''llama3''), (''stream'', JBool True),
                            (''messages'', JArr [user_message]), (''max_tokens'', JInt 64)]),
            media_type = ''application/json'', streamed = [''a'']\<rparr>"
    by (simp add: handler_defs rewrite_defs example_defs)
  from model_overwritten_when_present [OF c h] c h show ?thesis
    by (simp add: upstream_request_def user_request_def)
qed

text \<open>
  C1 as stated fails: a request with no \<^verbatim>\<open>model\<close> field goes upstream unchanged,
  without the configured default.
\<close>

theorem model_absent_counterexample:
  "default_model example_config = Some ''llama3''
   \<and> handle_chat_completions example_config modelless_request [] =
       Inr \<lparr>sent = upstream_request example_config modelless_request,
            media_type = ''application/json'', streamed = []\<rparr>
   \<and> field ''model'' (json_body (upstream_request example_config modelless_request)) = None"
  by (simp add: handler_defs rewrite_defs example_defs)

text \<open>
  C2, at the spec's own example (append prompt \<^verbatim>\<open>Y\<close>, first message \<^verbatim>\<open>hi\<close>): the
  content becomes the five characters h, i, backslash, n, Y, which is not
  \<^verbatim>\<open>hi\<close>, a newline (0x0A) and \<^verbatim>\<open>Y\<close>.
\<close>

theorem append_joins_with_backslash_n:
  "rewrite (example_config\<lparr>append_system_prompt := Some ''Y''\<rparr>) modelless_request =
     Inr (JObj [(''messages'',
                 JArr [JObj [(''role'', JStr ''user''),
                             (''content'', JStr [CHR ''h'', CHR ''i'', CHR 0x5C, CHR ''n'', CHR ''Y''])]]),
                (''stream'', JBool True)])
   \<and> [CHR ''h'', CHR ''i'', CHR 0x5C, CHR ''n'', CHR ''Y''] \<noteq> ''hi'' @ [CHR 0x0A] @ ''Y''"
  by (simp add: rewrite_defs example_defs)

subsection \<open>The claims about the prompts\<close>



text \<open>
  C5. With an overwrite prompt configured and not empty, the prompt step is the overwrite
  branch alone, and the append prompt, whatever it is set to, changes neither the
  rewritten body nor anything else of the handler's result.
\<close>

theorem append_ignored_when_overwrite_configured:
  assumes "nonempty (overwrite_system_prompt cfg) = Some X"
  shows "rewrite_prompts cfg d = overwrite_prompt X d
         \<and> rewrite (cfg\<lparr>append_system_prompt := a\<rparr>) body = rewrite cfg body
         \<and> handle_chat_completions (cfg\<lparr>append_system_prompt := a\<rparr>) body chunks
             = handle_chat_completions cfg body chunks"
proof -
  let ?cfg' = "cfg\<lparr>append_system_prompt := a\<rparr>"
  have p: "rewrite_prompts ?cfg' d1 = rewrite_prompts cfg d1" for d1
    using assms by (simp add: rewrite_prompts_def)
  have "MODEL ?cfg' = MODEL cfg"
    by simp
  then have m: "rewrite_model ?cfg' body = rewrite_model cfg body"
    unfolding rewrite_model_def by (rule arg_cong)
  have r: "rewrite ?cfg' body = rewrite cfg body"
    unfolding rewrite_def m p ..
  have u: "upstream_request ?cfg' d1 = upstream_request cfg d1" for d1
    by (simp add: upstream_request_def build_headers_def)
  have h: "handle_chat_completions ?cfg' body chunks = handle_chat_completions cfg body chunks"
    unfolding handle_chat_completions_def r u ..
  from assms have "rewrite_prompts cfg d = overwrite_prompt X d"
    by (simp add: rewrite_prompts_def)
  with r h show ?thesis by simp
qed

text \<open>
  The theorem of C5 with overwrite prompt \<^verbatim>\<open>X\<close> and append prompt \<^verbatim>\<open>Y\<close>: the
  rewritten body carries \<^verbatim>\<open>X\<close> and no trace of \<^verbatim>\<open>Y\<close>.
\<close>

theorem append_ignored_when_overwrite_configured_witness:
  "nonempty (overwrite_system_prompt (example_config\<lparr>overwrite_system_prompt := Some ''X''\<rparr>))
     = Some ''X''
   \<and> rewrite (example_config\<lparr>overwrite_system_prompt := Some ''X'',
                                append_system_prompt := Some ''Y''\<rparr>) system_request
       = rewrite (example_config\<lparr>overwrite_system_prompt := Some ''X''\<rparr>) system_request
   \<and> rewrite (example_config\<lparr>overwrite_system_prompt := Some ''X'',
                                append_system_prompt := Some ''Y''\<rparr>) system_request
       = Inr (JObj [(''messages'',
                     JArr [JObj [(''role'', JStr ''system''), (''content'', JStr ''X'')],
                           user_message]),
                    (''model'', JStr ''llama3'')])"
proof -
  let ?cfg = "example_config\<lparr>overwrite_system_prompt := Some ''X''\<rparr>"
  have c: "nonempty (overwrite_system_prompt ?cfg) = Some ''X''" by simp
  have r: "rewrite ?cfg system_request
       = Inr (JObj [(''messages'',
                     JArr [JObj [(''role'', JStr ''system''), (''content'', JStr ''X'')],
                           user_message]),
                    (''model'', JStr ''llama3'')])"
    by (simp add: rewrite_defs example_defs)
  from append_ignored_when_overwrite_configured
         [OF c, where a = "Some ''Y''" and body = system_request] c r
  show ?thesis by simp
qed

text \<open>
  C6. The request sent upstream has the single header \<^verbatim>\<open>Authorization: Bearer key\<close>
  when the API key is set and not empty, and no header at all otherwise; so an
  Authorization header is sent if and only if the key is set and not empty.
\<close>

theorem authorization_header_iff_api_key:
  assumes "handle_chat_completions cfg body chunks = Inr r"
  shows "headers (sent r) =
           (case nonempty (api_key cfg) of
              None \<Rightarrow> []
            | Some k \<Rightarrow> [(''Authorization'', ''Bearer '' @ k)])
         \<and> (map_of (headers (sent r)) ''Authorization'' \<noteq> None
              \<longleftrightarrow> api_key cfg \<noteq> None \<and> api_key cfg \<noteq> Some [])"
proof -
  have h: "headers (sent r) = build_headers cfg"
    using assms by (simp add: handle_Inr)
  show ?thesis
  proof (cases "api_key cfg")
    case None
    then show ?thesis by (simp add: h build_headers_def)
  next
    case (Some k)
    then show ?thesis by (cases "k = []") (simp_all add: h build_headers_def)
  qed
qed

text \<open>
  The theorem of C6 with the key \<^verbatim>\<open>secret\<close> and with the empty key.
\<close>

theorem authorization_header_iff_api_key_witness:
  "handle_chat_completions example_config modelless_request [] =
     Inr \<lparr>sent = \<lparr>http_method = ''POST'',
                  url = ''http://localhost:8080/v1/chat/completions'',
                  headers = [(''Authorization'', ''Bearer secret'')],
                  json_body = modelless_request\<rparr>,
          media_type = ''application/json'', streamed = []\<rparr>
   \<and> handle_chat_completions (example_config\<lparr>api_key := Some []\<rparr>) modelless_request [] =
     Inr \<lparr>sent = \<lparr>http_method = ''POST'',
                  url = ''http://localhost:8080/v1/chat/completions'',
                  headers = [],
                  json_body = modelless_request\<rparr>,
          media_type = ''application/json'', streamed = []\<rparr>
   \<and> map_of [(''Authorization'', ''Bearer secret'')] ''Authorization'' = Some ''Bearer secret''"
proof -
  have a: "handle_chat_completions example_config modelless_request [] =
     Inr \<lparr>sent = \<lparr>http_method = ''POST'',
                  url = ''http://localhost:8080/v1/chat/completions'',
                  headers = [(''Authorization'', ''Bearer secret'')],
                  json_body = modelless_request\<rparr>,
          media_type = ''application/json'', streamed = []\<rparr>"
    by (simp add: handler_defs rewrite_defs example_defs)
  have b: "handle_chat_completions (example_config\<lparr>api_key := Some []\<rparr>) modelless_request [] =
     Inr \<lparr>sent = \<lparr>http_method = ''POST'',
                  url = ''http://localhost:8080/v1/chat/completions'',
                  headers = [],
                  json_body = modelless_request\<rparr>,
          media_type = ''application/json'', streamed = []\<rparr>"
    by (simp add: handler_defs rewrite_defs example_defs)
  from authorization_header_iff_api_key [OF a] authorization_header_iff_api_key [OF b] a b
  show ?thesis by (simp add: example_config_def)
qed

subsection \<open>Faults and the frame of the rewrite\<close>

lemma rewrite_prompts_fault_obj:
  assumes "nonempty (overwrite_system_prompt cfg) \<noteq> None
           \<or> nonempty (append_system_prompt cfg) \<noteq> None"
      and "map_of kvs ''messages'' = None \<or> map_of kvs ''messages'' = Some (JArr [])"
  shows "rewrite_prompts cfg (JObj kvs) =
           Inl (if map_of kvs ''messages'' = None then KeyError else IndexError)"
proof (cases "nonempty (overwrite_system_prompt cfg)")
  case (Some p)
  with assms(2) show ?thesis
    by (auto simp: rewrite_prompts_def overwrite_prompt_def first_message_def)
next
  case None
  with assms(1) obtain p where "nonempty (append_system_prompt cfg) = Some p"
    by auto
  with None assms(2) show ?thesis
    by (auto simp: rewrite_prompts_def append_prompt_def first_message_def)
qed

lemma rewrite_prompts_fault_not_obj:
  assumes "nonempty (overwrite_system_prompt cfg) \<noteq> None
           \<or> nonempty (append_system_prompt cfg) \<noteq> None"
      and "\<forall>kvs. d \<noteq> JObj kvs"
  shows "rewrite_prompts cfg d = Inl TypeError"
proof -
  have g: "py_getitem d ''messages'' = Inl TypeError"
    using assms(2) by (cases d) simp_all
  show ?thesis
  proof (cases "nonempty (overwrite_system_prompt cfg)")
    case (Some p)
    then show ?thesis
      by (simp add: rewrite_prompts_def overwrite_prompt_def first_message_def g)
  next
    case None
    with assms(1) obtain p where "nonempty (append_system_prompt cfg) = Some p"
      by auto
    with None show ?thesis
      by (simp add: rewrite_prompts_def append_prompt_def first_message_def g)
  qed
qed

lemma rewrite_model_not_obj_cases:
  assumes "\<forall>kvs. d \<noteq> JObj kvs"
  shows "rewrite_model cfg d = Inl TypeError \<or> rewrite_model cfg d = Inr d"
  using assms by (cases d) (simp_all add: rewrite_model_def)

lemma handle_Inl:
  "rewrite cfg d = Inl e \<Longrightarrow> handle_chat_completions cfg d chunks = Inl e"
  by (simp add: handle_chat_completions_def)

text \<open>
  C7. With an overwrite or an append prompt configured and not empty, a body without a
  \<^verbatim>\<open>messages\<close> field, or with an empty \<^verbatim>\<open>messages\<close> list, makes the rewrite raise:
  KeyError for the missing key of a dict, IndexError for the empty list, TypeError for
  a body that is not a dict. The handler ends with that exception and sends nothing.
\<close>

theorem missing_messages_faults:
  assumes "nonempty (overwrite_system_prompt cfg) \<noteq> None
           \<or> nonempty (append_system_prompt cfg) \<noteq> None"
      and "field ''messages'' body = None \<or> field ''messages'' body = Some (JArr [])"
  shows "rewrite cfg body =
           Inl (case body of
                  JObj kvs \<Rightarrow> if map_of kvs ''messages'' = None then KeyError else IndexError
                | _ \<Rightarrow> TypeError)
         \<and> handle_chat_completions cfg body chunks =
           Inl (case body of
                  JObj kvs \<Rightarrow> if map_of kvs ''messages'' = None then KeyError else IndexError
                | _ \<Rightarrow> TypeError)"
proof -
  let ?e = "case body of
              JObj kvs \<Rightarrow> if map_of kvs ''messages'' = None then KeyError else IndexError
            | _ \<Rightarrow> TypeError"
  have r: "rewrite cfg body = Inl ?e"
  proof (cases "\<exists>kvs. body = JObj kvs")
    case True
    then obtain kvs where body: "body = JObj kvs" ..
    define kvs1 where
      "kvs1 = (if map_of kvs ''model'' = None then kvs
               else AList.update ''model'' (MODEL cfg) kvs)"
    have m1: "rewrite_model cfg body = Inr (JObj kvs1)"
      unfolding body kvs1_def by (rule rewrite_model_obj)
    have same: "map_of kvs1 ''messages'' = map_of kvs ''messages''"
      by (simp add: kvs1_def map_of_update_other)
    with assms(2) body
    have "map_of kvs1 ''messages'' = None \<or> map_of kvs1 ''messages'' = Some (JArr [])"
      by simp
    from rewrite_prompts_fault_obj [OF assms(1) this] m1 same body show ?thesis
      by (simp add: rewrite_def)
  next
    case False
    then have not_obj: "\<forall>kvs. body \<noteq> JObj kvs" by simp
    then have e: "?e = TypeError" by (cases body) simp_all
    from rewrite_model_not_obj_cases [OF not_obj, of cfg]
      rewrite_prompts_fault_not_obj [OF assms(1) not_obj]
    have "rewrite cfg body = Inl TypeError"
      by (auto simp: rewrite_def)
    with e show ?thesis by simp
  qed
  with handle_Inl [OF r] show ?thesis by simp
qed

text \<open>
  The theorem of C7 at a body with no \<^verbatim>\<open>messages\<close> field (append prompt configured) and
  at a body whose \<^verbatim>\<open>messages\<close> list is empty (overwrite prompt configured).
\<close>

theorem missing_messages_faults_witness:
  "nonempty (append_system_prompt (example_config\<lparr>append_system_prompt := Some ''Y''\<rparr>))
     = Some ''Y''
   \<and> field ''messages'' (JObj [(''model'', JStr ''gpt-4'')]) = None
   \<and> handle_chat_completions (example_config\<lparr>append_system_prompt := Some ''Y''\<rparr>)
        (JObj [(''model'', JStr ''gpt-4'')]) [''a''] = Inl KeyError
   \<and> nonempty (overwrite_system_prompt (example_config\<lparr>overwrite_system_prompt := Some ''X''\<rparr>))
     = Some ''X''
   \<and> field ''messages'' (JObj [(''messages'', JArr [])]) = Some (JArr [])
   \<and> handle_chat_completions (example_config\<lparr>overwrite_system_prompt := Some ''X''\<rparr>)
        (JObj [(''messages'', JArr [])]) [''a''] = Inl IndexError"
proof -
  let ?cfgY = "example_config\<lparr>append_system_prompt := Some ''Y''\<rparr>"
  let ?cfgX = "example_config\<lparr>overwrite_system_prompt := Some ''X''\<rparr>"
  have y: "nonempty (overwrite_system_prompt ?cfgY) \<noteq> None
           \<or> nonempty (append_system_prompt ?cfgY) \<noteq> None"
    by simp
  have x: "nonempty (overwrite_system_prompt ?cfgX) \<noteq> None
           \<or> nonempty (append_system_prompt ?cfgX) \<noteq> None"
    by simp
  have missing: "field ''messages'' (JObj [(''model'', JStr ''gpt-4'')]) = None
      \<or> field ''messages'' (JObj [(''model'', JStr ''gpt-4'')]) = Some (JArr [])"
    by simp
  have empty: "field ''messages'' (JObj [(''messages'', JArr [])]) = None
      \<or> field ''messages'' (JObj [(''messages'', JArr [])]) = Some (JArr [])"
    by simp
  from missing_messages_faults [OF y missing, of "[''a'']"]
       missing_messages_faults [OF x empty, of "[''a'']"]
  show ?thesis by simp
qed

lemma rewrite_prompts_messages:
  assumes "rewrite_prompts cfg d = Inr d'"
      and "field ''messages'' d = Some (JArr ms)"
  shows "\<exists>ms'. field ''messages'' d' = Some (JArr ms')
           \<and> (ms' = ms \<or> (\<exists>m'. ms' = m' # tl ms \<and> ms \<noteq> []) \<or> (\<exists>s. ms' = s # ms))"
proof (cases "nonempty (overwrite_system_prompt cfg)")
  case (Some p)
  with assms have ov: "overwrite_prompt p d = Inr d'"
    by (simp add: rewrite_prompts_def)
  then obtain kvs m rest role where d: "d = JObj kvs"
      and ms: "map_of kvs ''messages'' = Some (JArr (JObj m # rest))"
      and role: "map_of m ''role'' = Some role"
    using overwrite_prompt_Inr by blast
  from assms(2) d ms have "ms = JObj m # rest" by simp
  with ov show ?thesis
    unfolding d overwrite_prompt_obj [OF ms role]
    by (cases "role = JStr ''system''") (auto simp: map_of_update_same)
next
  case None
  note no_overwrite = None
  show ?thesis
  proof (cases "nonempty (append_system_prompt cfg)")
    case (Some p)
    with assms no_overwrite have ap: "append_prompt p d = Inr d'"
      by (simp add: rewrite_prompts_def)
    then obtain kvs m rest c where d: "d = JObj kvs"
        and ms: "map_of kvs ''messages'' = Some (JArr (JObj m # rest))"
        and c: "map_of m ''content'' = Some (JStr c)"
      using append_prompt_Inr by blast
    from assms(2) d ms have "ms = JObj m # rest" by simp
    with ap show ?thesis
      unfolding d append_prompt_obj [OF ms c] by (auto simp: map_of_update_same)
  next
    case None
    with assms no_overwrite show ?thesis
      by (simp add: rewrite_prompts_def)
  qed
qed

text \<open>
  C8. When the handler forwards a body, every top-level field other than \<^verbatim>\<open>model\<close> and
  \<^verbatim>\<open>messages\<close> has the value it came with, no key is added, dropped or moved, and the
  forwarded messages list is the inbound list itself, or the inbound list with its first
  message replaced, or the inbound list behind one new message: the messages after the
  first are the ones that came in.
\<close>

theorem rewrite_changes_only_model_and_messages:
  assumes "handle_chat_completions cfg body chunks = Inr r"
  shows "(\<forall>k. k \<noteq> ''model'' \<and> k \<noteq> ''messages''
              \<longrightarrow> field k (json_body (sent r)) = field k body)
         \<and> keys (json_body (sent r)) = keys body
         \<and> (\<forall>ms. field ''messages'' body = Some (JArr ms) \<longrightarrow>
               (\<exists>ms'. field ''messages'' (json_body (sent r)) = Some (JArr ms')
                  \<and> (ms' = ms \<or> (\<exists>m'. ms' = m' # tl ms \<and> ms \<noteq> [])
                               \<or> (\<exists>s. ms' = s # ms))))"
proof -
  from assms have "rewrite cfg body = Inr (json_body (sent r))"
    by (simp add: handle_Inr)
  then obtain d1 where m: "rewrite_model cfg body = Inr d1"
      and p: "rewrite_prompts cfg d1 = Inr (json_body (sent r))"
    using rewrite_Inr by blast
  have other: "field k (json_body (sent r)) = field k body"
    if "k \<noteq> ''model''" and "k \<noteq> ''messages''" for k
    using rewrite_prompts_frame [OF p that(2)] rewrite_model_field [OF m, of k] that(1)
    by simp
  have ks: "keys (json_body (sent r)) = keys body"
    using rewrite_prompts_keys [OF p] rewrite_model_keys [OF m] by simp
  have msgs: "\<exists>ms'. field ''messages'' (json_body (sent r)) = Some (JArr ms')
                  \<and> (ms' = ms \<or> (\<exists>m'. ms' = m' # tl ms \<and> ms \<noteq> [])
                               \<or> (\<exists>s. ms' = s # ms))"
    if "field ''messages'' body = Some (JArr ms)" for ms
  proof -
    from rewrite_model_field [OF m, of "''messages''"] that
    have "field ''messages'' d1 = Some (JArr ms)" by simp
    from rewrite_prompts_messages [OF p this] show ?thesis .
  qed
  from other ks msgs show ?thesis by blast
qed


text \<open>
  The theorem of C8 at a request with \<^verbatim>\<open>stream\<close> and \<^verbatim>\<open>max_tokens\<close> fields, with an
  overwrite prompt configured: both fields and the order of the keys are kept, and the
  user message stands unchanged behind the new system message.
\<close>

theorem rewrite_changes_only_model_and_messages_witness:
  "handle_chat_completions (example_config\<lparr>overwrite_system_prompt := Some ''X''\<rparr>)
       user_request [] =
     Inr \<lparr>sent = upstream_request (example_config\<lparr>overwrite_system_prompt := Some ''X''\<rparr>)
                   (JObj [(''model'', JStr ''llama3''), (''stream'', JBool True),
                          (''messages'', JArr [system_message ''X'', user_message]),
                          (''max_tokens'', JInt 64)]),
          media_type = ''application/json'', streamed = []\<rparr>
   \<and> field ''stream'' user_request = Some (JBool True)
   \<and> field ''max_tokens'' user_request = Some (JInt 64)
   \<and> keys user_request = [''model'', ''stream'', ''messages'', ''max_tokens'']
   \<and> field ''messages'' user_request = Some (JArr [user_message])"
proof -
  let ?cfg = "example_config\<lparr>overwrite_system_prompt := Some ''X''\<rparr>"
  let ?out = "JObj [(''model'', JStr ''llama3''), (''stream'', JBool True),
                    (''messages'', JArr [system_message ''X'', user_message]),
                    (''max_tokens'', JInt 64)]"
  have h: "handle_chat_completions ?cfg user_request [] =
     Inr \<lparr>sent = upstream_request ?cfg ?out,
          media_type = ''application/json'', streamed = []\<rparr>"
    by (simp add: handler_defs rewrite_defs example_defs)
  note frame = rewrite_changes_only_model_and_messages [OF h]
  from frame [THEN conjunct1, THEN spec, where x = "''stream''"]
  have "field ''stream'' ?out = field ''stream'' user_request"
    by (simp add: upstream_request_def)
  moreover from frame [THEN conjunct1, THEN spec, where x = "''max_tokens''"]
  have "field ''max_tokens'' ?out = field ''max_tokens'' user_request"
    by (simp add: upstream_request_def)
  moreover from frame [THEN conjunct2, THEN conjunct1]
  have "keys ?out = keys user_request"
    by (simp add: upstream_request_def)
  moreover have "field ''messages'' user_request = Some (JArr [user_message])"
    by (simp add: user_request_def)
  ultimately show ?thesis
    using h by simp
qed

text \<open>
  C10. With neither prompt configured (unset or empty), the rewrite is the model step
  alone, which never reads \<^verbatim>\<open>messages\<close>: for every dict body, with or without a
  \<^verbatim>\<open>messages\<close> field and whatever its value, the handler does not fault and forwards
  the \<^verbatim>\<open>messages\<close> value as it came, or none if there was none.
\<close>

theorem no_prompt_leaves_messages_alone:
  assumes "nonempty (overwrite_system_prompt cfg) = None"
      and "nonempty (append_system_prompt cfg) = None"
  shows "rewrite cfg d = rewrite_model cfg d
         \<and> (\<exists>r. handle_chat_completions cfg (JObj kvs) chunks = Inr r
                \<and> field ''messages'' (json_body (sent r)) = map_of kvs ''messages'')"
proof -
  have p: "rewrite_prompts cfg d1 = Inr d1" for d1
    using assms by (simp add: rewrite_prompts_def)
  have r: "rewrite cfg d1 = rewrite_model cfg d1" for d1
    by (cases "rewrite_model cfg d1") (simp_all add: rewrite_def p)
  define kvs1 where
    "kvs1 = (if map_of kvs ''model'' = None then kvs
             else AList.update ''model'' (MODEL cfg) kvs)"
  have "rewrite cfg (JObj kvs) = Inr (JObj kvs1)"
    unfolding r kvs1_def by (rule rewrite_model_obj)
  moreover have "map_of kvs1 ''messages'' = map_of kvs ''messages''"
    by (simp add: kvs1_def map_of_update_other)
  ultimately
  have "\<exists>r. handle_chat_completions cfg (JObj kvs) chunks = Inr r
           \<and> field ''messages'' (json_body (sent r)) = map_of kvs ''messages''"
    by (simp add: handle_chat_completions_def upstream_request_def)
  with r show ?thesis by simp
qed

text \<open>
  The theorem of C10 at a body with no \<^verbatim>\<open>messages\<close> field and at a body whose
  \<^verbatim>\<open>messages\<close> list is empty: both are forwarded.
\<close>

theorem no_prompt_leaves_messages_alone_witness:
  "nonempty (overwrite_system_prompt example_config) = None
   \<and> nonempty (append_system_prompt example_config) = None
   \<and> (\<exists>r. handle_chat_completions example_config (JObj [(''model'', JStr ''gpt-4'')]) []
             = Inr r
          \<and> field ''messages'' (json_body (sent r)) = None)
   \<and> (\<exists>r. handle_chat_completions example_config (JObj [(''messages'', JArr [])]) []
             = Inr r
          \<and> field ''messages'' (json_body (sent r)) = Some (JArr []))"
proof -
  have o: "nonempty (overwrite_system_prompt example_config) = None"
    by (simp add: example_config_def)
  have a: "nonempty (append_system_prompt example_config) = None"
    by (simp add: example_config_def)
  from no_prompt_leaves_messages_alone
         [OF o a, where kvs = "[(''model'', JStr ''gpt-4'')]" and chunks = "[]"]
       no_prompt_leaves_messages_alone
         [OF o a, where kvs = "[(''messages'', JArr [])]" and chunks = "[]"]
       o a
  show ?thesis by simp
qed

subsection \<open>What the append branch does\<close>

text \<open>
  With no overwrite prompt and an append prompt \<open>Y\<close> configured, a first message that is a
  dict with a str content \<open>C\<close> gets the content \<open>C\<close>, a backslash, the letter n and \<open>Y\<close>,
  whatever its role; nothing else of the messages list changes.
\<close>

theorem append_prompt_extends_first_content:
  assumes "nonempty (overwrite_system_prompt cfg) = None"
      and "nonempty (append_system_prompt cfg) = Some Y"
      and "field ''messages'' body = Some (JArr (JObj m # rest))"
      and "map_of m ''content'' = Some (JStr C)"
  shows "\<exists>body'. rewrite cfg body = Inr body'
           \<and> field ''messages'' body' =
               Some (JArr (JObj (AList.update ''content''
                                   (JStr (C @ [CHR 0x5C, CHR ''n''] @ Y)) m) # rest))"
proof -
  from assms(3) obtain kvs where body: "body = JObj kvs"
      and ms: "map_of kvs ''messages'' = Some (JArr (JObj m # rest))"
    using field_Some_obj by blast
  define kvs1 where
    "kvs1 = (if map_of kvs ''model'' = None then kvs
             else AList.update ''model'' (MODEL cfg) kvs)"
  have m1: "rewrite_model cfg body = Inr (JObj kvs1)"
    unfolding body kvs1_def by (rule rewrite_model_obj)
  have ms1: "map_of kvs1 ''messages'' = Some (JArr (JObj m # rest))"
    using ms by (simp add: kvs1_def map_of_update_other)
  have "rewrite cfg body = append_prompt Y (JObj kvs1)"
    using m1 assms(1,2) by (simp add: rewrite_def rewrite_prompts_def)
  then show ?thesis
    by (simp add: append_prompt_obj [OF ms1 assms(4)] map_of_update_same separator_def)
qed

text \<open>
  The theorem above at a first message of role \<^verbatim>\<open>system\<close> with content \<^verbatim>\<open>old\<close>.
\<close>

theorem append_prompt_extends_first_content_witness:
  "nonempty (overwrite_system_prompt (example_config\<lparr>append_system_prompt := Some ''Y''\<rparr>))
     = None
   \<and> nonempty (append_system_prompt (example_config\<lparr>append_system_prompt := Some ''Y''\<rparr>))
     = Some ''Y''
   \<and> field ''messages'' system_request =
       Some (JArr [JObj [(''role'', JStr ''system''), (''content'', JStr ''old'')], user_message])
   \<and> (\<exists>body'. rewrite (example_config\<lparr>append_system_prompt := Some ''Y''\<rparr>) system_request
                  = Inr body'
          \<and> field ''messages'' body' =
              Some (JArr [JObj [(''role'', JStr ''system''),
                                (''content'',
                                 JStr [CHR ''o'', CHR ''l'', CHR ''d'', CHR 0x5C, CHR ''n'',
                                       CHR ''Y''])],
                          user_message]))"
proof -
  let ?cfg = "example_config\<lparr>append_system_prompt := Some ''Y''\<rparr>"
  have o: "nonempty (overwrite_system_prompt ?cfg) = None"
    by (simp add: example_config_def)
  have a: "nonempty (append_system_prompt ?cfg) = Some ''Y''"
    by simp
  have s: "field ''messages'' system_request =
       Some (JArr (JObj [(''role'', JStr ''system''), (''content'', JStr ''old'')]
                   # [user_message]))"
    by (simp add: system_request_def old_system_message_def)
  have c: "map_of [(''role'', JStr ''system''), (''content'', JStr ''old'')] ''content''
             = Some (JStr ''old'')"
    by simp
  from append_prompt_extends_first_content [OF o a s c] o a s
  show ?thesis by simp
qed

end
